theory Spec2Isabelle
  imports Complex_Main
begin

section \<open>Python values shared by both units\<close>

subsection \<open>Strings\<close>

text \<open>
  A Python \<^verbatim>\<open>str\<close> is a sequence of Unicode code points, so it is modelled as a list of
  code points and not as a list of bytes. \<open>ascii\<close> embeds an ASCII literal of the source.
\<close>

type_synonym pystr = "nat list"

definition ascii :: "string \<Rightarrow> pystr" where
  "ascii s = map of_char s"

text \<open>\<^verbatim>\<open>str(n)\<close> and \<^verbatim>\<open>f"{n}"\<close> for an \<^verbatim>\<open>int\<close>: decimal digits, a minus sign when negative.\<close>

definition digit_char :: "nat \<Rightarrow> nat" where
  "digit_char d = 48 + d"

fun str_nat :: "nat \<Rightarrow> pystr" where
  "str_nat n = (if n < 10 then [digit_char n] else str_nat (n div 10) @ [digit_char (n mod 10)])"

declare str_nat.simps [simp del]

definition str_int :: "int \<Rightarrow> pystr" where
  "str_int i = (if i < 0 then ascii ''-'' @ str_nat (nat (- i)) else str_nat (nat i))"

text \<open>Reading a digit string back, used to say which number a printed field denotes.\<close>

definition is_digit :: "nat \<Rightarrow> bool" where
  "is_digit c = (48 \<le> c \<and> c \<le> 57)"

definition digits_value :: "pystr \<Rightarrow> nat" where
  "digits_value ds = foldl (\<lambda>acc c. 10 * acc + (c - 48)) 0 ds"

subsection \<open>Floats\<close>

text \<open>
  A finite Python \<^verbatim>\<open>float\<close> is an IEEE 754 binary64 number, hence a rational; it is modelled
  by its exact value. Every arithmetic operation rounds the exact result to the nearest
  binary64 number, ties to even (\<open>float_round\<close>): 53 significant bits, and below
  \<open>2 powi (- 1022)\<close> the fixed spacing \<open>2 powi (- 1074)\<close> of the subnormal numbers.
  Readings of \<^verbatim>\<open>time.time()\<close> are seconds since the epoch, far below the overflow
  threshold \<open>2 powi 1024\<close>; infinities and NaN are not modelled.
\<close>

fun bit_length :: "nat \<Rightarrow> nat" where
  "bit_length n = (if n = 0 then 0 else Suc (bit_length (n div 2)))"

declare bit_length.simps [simp del]

definition round_half_even :: "rat \<Rightarrow> int" where
  "round_half_even y =
     (let f = \<lfloor>y\<rfloor>; r = y - of_int f in
      if r < 1 / 2 then f
      else if 1 / 2 < r then f + 1
      else if even f then f else f + 1)"

text \<open>\<open>ilog2 a\<close> is the binary exponent of a positive \<open>a\<close>: \<open>2 powi ilog2 a \<le> a < 2 powi (ilog2 a + 1)\<close>.\<close>

definition ilog2 :: "rat \<Rightarrow> int" where
  "ilog2 a =
     (if 1 \<le> a then int (bit_length (nat \<lfloor>a\<rfloor>)) - 1
      else - int (bit_length (nat (\<lceil>1 / a\<rceil> - 1))))"

definition float_round :: "rat \<Rightarrow> rat" where
  "float_round x =
     (if x = 0 then 0
      else let e = max (ilog2 \<bar>x\<bar>) (- 1022); q = 2 powi (e - 52)
           in of_int (round_half_even (x / q)) * q)"

definition float_sub :: "rat \<Rightarrow> rat \<Rightarrow> rat" where
  "float_sub a b = float_round (a - b)"

definition float_mul :: "rat \<Rightarrow> rat \<Rightarrow> rat" where
  "float_mul a b = float_round (a * b)"

text \<open>
  \<^verbatim>\<open>f"{x:.2f}"\<close>: the exact value of the float rounded to two decimals, ties to even, printed
  as an optional minus sign, the integer part, a point and two digits. The sign is the
  float's own, so a small negative value prints as \<^verbatim>\<open>-0.00\<close>.
\<close>

definition format_2f :: "rat \<Rightarrow> pystr" where
  "format_2f x =
     (let n = nat (round_half_even (\<bar>x\<bar> * 100)) in
      (if x < 0 then ascii ''-'' else []) @ str_nat (n div 100) @ ascii ''.'' @
      [digit_char (n mod 100 div 10), digit_char (n mod 10)])"

section \<open>Timing Interceptor (middleware.py)\<close>

text \<open>
  \<open>request.url.path\<close> and \<open>response.status_code\<close> are the only attributes \<open>dispatch\<close> reads;
  the rest of a request (\<open>scope\<close>) and of a response (\<open>body\<close>) is opaque to it.
\<close>

record 'a request =
  url_path :: pystr
  scope :: 'a

record 'b response =
  status_code :: int
  body :: 'b

text \<open>
  The world \<open>dispatch\<close> runs in: the wall clock read by \<^verbatim>\<open>time.time()\<close>, the lines written
  by \<^verbatim>\<open>print\<close> (one entry per call), and the state \<open>app\<close> of the rest of the pipeline.
  The continuation \<^verbatim>\<open>call_next\<close> is any function of the request and the world: it returns a
  response or raises (\<open>Inl\<close>), and leaves the world as it likes: time passes, handlers
  print, application state changes. \<^verbatim>\<open>await call_next(request)\<close> hands control to it and
  resumes \<open>dispatch\<close> in the world it leaves.
\<close>

record 's world =
  clock :: rat
  stdout :: "pystr list"
  app :: 's

type_synonym ('a, 'b, 'e, 's) call_next =
  "'a request \<Rightarrow> 's world \<Rightarrow> ('e + 'b response) \<times> 's world"

definition time_time :: "'s world \<Rightarrow> rat" where
  "time_time w = clock w"

definition py_print :: "pystr \<Rightarrow> 's world \<Rightarrow> 's world" where
  "py_print line w = w\<lparr>stdout := stdout w @ [line]\<rparr>"

definition execution_time_ms :: "rat \<Rightarrow> rat \<Rightarrow> rat" where
  "execution_time_ms start_time end_time = float_mul (float_sub end_time start_time) 1000"

definition log_line :: "pystr \<Rightarrow> rat \<Rightarrow> int \<Rightarrow> pystr" where
  "log_line request_path ms code =
     ascii ''[LOG] Path: '' @ request_path @ ascii '' | '' @
     ascii ''Execution Time: '' @ format_2f ms @ ascii ''ms | '' @
     ascii ''Status: '' @ str_int code"

definition dispatch ::
  "'a request \<Rightarrow> ('a, 'b, 'e, 's) call_next \<Rightarrow> 's world \<Rightarrow> ('e + 'b response) \<times> 's world" where
  "dispatch request call_next w =
     (let request_path = url_path request;
          start_time = time_time w
      in case call_next request w of
           (Inl e, w1) \<Rightarrow> (Inl e, w1)
         | (Inr response, w1) \<Rightarrow>
             (let ms = execution_time_ms start_time (time_time w1);
                  code = status_code response
              in (Inr response, py_print (log_line request_path ms code) w1)))"

text \<open>
  Counting invocations: \<open>counted call_next\<close> behaves as \<open>call_next\<close> on the world it sees and
  increments a counter kept beside the application state, out of \<open>call_next\<close>'s reach.
\<close>

definition with_count :: "'s world \<Rightarrow> nat \<Rightarrow> ('s \<times> nat) world" where
  "with_count w n = \<lparr>clock = clock w, stdout = stdout w, app = (app w, n)\<rparr>"

definition without_count :: "('s \<times> nat) world \<Rightarrow> 's world" where
  "without_count w = \<lparr>clock = clock w, stdout = stdout w, app = fst (app w)\<rparr>"

definition counted ::
  "('a, 'b, 'e, 's) call_next \<Rightarrow> ('a, 'b, 'e, 's \<times> nat) call_next" where
  "counted call_next request w =
     (case call_next request (without_count w) of
        (r, w1) \<Rightarrow> (r, with_count w1 (Suc (snd (app w)))))"

section \<open>Endpoint Probe Script (test_manual.py)\<close>

subsection \<open>\<^verbatim>\<open>str.split()\<close>\<close>

text \<open>
  \<^verbatim>\<open>s.split()\<close> with no argument cuts at runs of whitespace and drops empty words.
  Whitespace is what \<^verbatim>\<open>str.isspace\<close> accepts: the ASCII controls U+0009 to U+000D and
  U+001C to U+001F, the space, and the Unicode spaces and line separators.
\<close>

definition isspace :: "nat \<Rightarrow> bool" where
  "isspace c =
     ((0x09 \<le> c \<and> c \<le> 0x0D) \<or> (0x1C \<le> c \<and> c \<le> 0x20) \<or> c = 0x85 \<or> c = 0xA0 \<or>
      c = 0x1680 \<or> (0x2000 \<le> c \<and> c \<le> 0x200A) \<or> c = 0x2028 \<or> c = 0x2029 \<or>
      c = 0x202F \<or> c = 0x205F \<or> c = 0x3000)"

fun split_from :: "pystr \<Rightarrow> pystr \<Rightarrow> pystr list" where
  "split_from word [] = (if word = [] then [] else [word])"
| "split_from word (c # cs) =
     (if isspace c then (if word = [] then split_from [] cs else word # split_from [] cs)
      else split_from (word @ [c]) cs)"

definition str_split :: "pystr \<Rightarrow> pystr list" where
  "str_split s = split_from [] s"

subsection \<open>JSON values, exceptions, responses\<close>

text \<open>
  What \<^verbatim>\<open>response.json()\<close> returns: the Python value decoded from the body. A \<open>JObj\<close> lists
  the items of the decoded \<^verbatim>\<open>dict\<close>; a key is looked up with \<open>map_of\<close>.
\<close>

datatype json =
    JNull
  | JBool bool
  | JInt int
  | JFloat rat
  | JStr pystr
  | JArr "json list"
  | JObj "(pystr \<times> json) list"

text \<open>
  The exceptions a test case can meet, all of them subclasses of \<^verbatim>\<open>Exception\<close>:
  \<open>ConnectionError\<close> is \<^verbatim>\<open>requests.exceptions.ConnectionError\<close> and its subclasses,
  \<open>RequestFailure\<close> any other exception out of \<^verbatim>\<open>requests.post\<close> (a read timeout, an invalid
  URL), \<open>JSONDecodeError\<close> the failure of \<^verbatim>\<open>response.json()\<close>; \<open>KeyError\<close>, \<open>TypeError\<close> and
  \<open>AttributeError\<close> are raised by the interpreter on the decoded value, and
  \<open>UnicodeEncodeError\<close> by \<^verbatim>\<open>print\<close>. Library exceptions carry their message.
\<close>

datatype exn =
    ConnectionError pystr
  | RequestFailure pystr
  | JSONDecodeError pystr
  | KeyError pystr
  | TypeError
  | AttributeError
  | UnicodeEncodeError

fun is_ConnectionError :: "exn \<Rightarrow> bool" where
  "is_ConnectionError (ConnectionError _) = True"
| "is_ConnectionError _ = False"

text \<open>
  A \<^verbatim>\<open>requests.Response\<close> as the script reads it: \<^verbatim>\<open>status_code\<close>, \<^verbatim>\<open>text\<close>, and the outcome
  of \<^verbatim>\<open>json()\<close>, the decoder's error message or the decoded value.
\<close>

record http_response =
  resp_status_code :: int
  resp_text :: pystr
  resp_json :: "pystr + json"

definition response_json :: "http_response \<Rightarrow> exn + json" where
  "response_json response =
     (case resp_json response of Inl msg \<Rightarrow> Inl (JSONDecodeError msg) | Inr data \<Rightarrow> Inr data)"

text \<open>\<^verbatim>\<open>data[key]\<close> with a string key, and \<^verbatim>\<open>value.split()\<close>, on a decoded value of any type.\<close>

fun getitem :: "json \<Rightarrow> pystr \<Rightarrow> exn + json" where
  "getitem (JObj items) key = (case map_of items key of None \<Rightarrow> Inl (KeyError key) | Some v \<Rightarrow> Inr v)"
| "getitem _ key = Inl TypeError"

fun split_method :: "json \<Rightarrow> exn + pystr list" where
  "split_method (JStr s) = Inr (str_split s)"
| "split_method _ = Inl AttributeError"

subsection \<open>Output, network and control flow\<close>

text \<open>
  One printed line is the list of the pieces of its f-string: literal and rendered text,
  \<^verbatim>\<open>str(v)\<close> of a decoded value, \<^verbatim>\<open>str(e)\<close> of an exception. The state of the script is what it
  has printed (one entry for each call of \<^verbatim>\<open>print\<close>) and the state \<open>net\<close> of the network and
  server behind \<^verbatim>\<open>requests.post\<close>.
\<close>

datatype frag = Text pystr | StrOfJson json | StrOfExn exn

type_synonym line = "frag list"

record 'n probe_world =
  printed :: "line list"
  net :: 'n

text \<open>
  \<^verbatim>\<open>requests.post(url, json=payload, timeout=seconds)\<close> is given by the environment: any
  function of the arguments and the network state that returns a response or raises.
\<close>

type_synonym 'n requests_post =
  "pystr \<Rightarrow> json \<Rightarrow> nat \<Rightarrow> 'n \<Rightarrow> (exn + http_response) \<times> 'n"

text \<open>Statements are state transformers that return a value or raise.\<close>

type_synonym ('a, 'n) act = "'n probe_world \<Rightarrow> (exn + 'a) \<times> 'n probe_world"

definition return_act :: "'a \<Rightarrow> ('a, 'n) act" where
  "return_act x w = (Inr x, w)"

definition lift_act :: "exn + 'a \<Rightarrow> ('a, 'n) act" where
  "lift_act r w = (r, w)"

definition bind_act :: "('a, 'n) act \<Rightarrow> ('a \<Rightarrow> ('b, 'n) act) \<Rightarrow> ('b, 'n) act" where
  "bind_act m f w = (case m w of (Inl e, w1) \<Rightarrow> (Inl e, w1) | (Inr x, w1) \<Rightarrow> f x w1)"

fun seq_acts :: "(unit, 'n) act list \<Rightarrow> (unit, 'n) act" where
  "seq_acts [] = return_act ()"
| "seq_acts (a # as) = bind_act a (\<lambda>_. seq_acts as)"

definition try_except :: "(unit, 'n) act \<Rightarrow> (exn \<Rightarrow> (unit, 'n) act) \<Rightarrow> (unit, 'n) act" where
  "try_except try_body handler w =
     (case try_body w of (Inl e, w1) \<Rightarrow> handler e w1 | (Inr x, w1) \<Rightarrow> (Inr x, w1))"

text \<open>
  \<^verbatim>\<open>print(s)\<close> encodes \<open>s\<close> for the terminal before it writes anything. The terminal takes
  UTF-8, which encodes every code point but the surrogates U+D800 to U+DFFF: a string with
  a lone surrogate (JSON can carry one, as \<^verbatim>\<open>"\ud800"\<close>) raises \<^verbatim>\<open>UnicodeEncodeError\<close> and
  nothing is written. \<^verbatim>\<open>str(v)\<close> of a decoded value that is not itself a string is its
  \<^verbatim>\<open>repr\<close>, which escapes surrogates, and the messages of the exceptions are ASCII.
\<close>

definition is_surrogate :: "nat \<Rightarrow> bool" where
  "is_surrogate c = (0xD800 \<le> c \<and> c \<le> 0xDFFF)"

definition encodable :: "pystr \<Rightarrow> bool" where
  "encodable s = (\<not> list_ex is_surrogate s)"

fun frag_encodable :: "frag \<Rightarrow> bool" where
  "frag_encodable (Text s) = encodable s"
| "frag_encodable (StrOfJson (JStr s)) = encodable s"
| "frag_encodable (StrOfJson _) = True"
| "frag_encodable (StrOfExn _) = True"

definition print_line :: "line \<Rightarrow> (unit, 'n) act" where
  "print_line l w =
     (if list_all frag_encodable l then (Inr (), w\<lparr>printed := printed w @ [l]\<rparr>)
      else (Inl UnicodeEncodeError, w))"

definition post :: "'n requests_post \<Rightarrow> pystr \<Rightarrow> json \<Rightarrow> nat \<Rightarrow> (http_response, 'n) act" where
  "post requests_post url payload timeout w =
     (case requests_post url payload timeout (net w) of (r, n1) \<Rightarrow> (r, w\<lparr>net := n1\<rparr>))"

subsection \<open>The script\<close>

definition BASE_URL :: pystr where
  "BASE_URL = ascii ''http://localhost:8000''"

definition check_mark :: pystr where
  "check_mark = [0x2705]"

definition cross_mark :: pystr where
  "cross_mark = [0x274C]"

definition rule60 :: pystr where
  "rule60 = replicate 60 61"

definition newline :: pystr where
  "newline = [10]"

text \<open>The block \<^verbatim>\<open># Verify word count\<close> of \<^verbatim>\<open>test_summaries\<close>.\<close>

definition verify_word_count :: "pystr \<Rightarrow> nat \<Rightarrow> (unit, 'n) act" where
  "verify_word_count text word_count =
     (if length (str_split text) > 10 then
        (if word_count = 10 then
           print_line [Text (check_mark @
             ascii '' Correct: Returned exactly 10 words as expected'')]
         else
           print_line [Text (cross_mark @
             ascii '' Error: Expected 10 words, got '' @ str_nat word_count)])
      else if length (str_split text) = 10 then
        (if word_count = 10 then
           print_line [Text (check_mark @ ascii '' Correct: Returned all 10 words'')]
         else
           print_line [Text (cross_mark @
             ascii '' Error: Expected 10 words, got '' @ str_nat word_count)])
      else
        (if word_count = length (str_split text) then
           print_line [Text (check_mark @ ascii '' Correct: Returned all '' @
             str_nat word_count @ ascii '' words (less than 10)'')]
         else
           print_line [Text (cross_mark @ ascii '' Error: Expected '' @
             str_nat (length (str_split text)) @ ascii '' words, got '' @
             str_nat word_count)]))"

text \<open>The body of the \<^verbatim>\<open>try\<close> statement of \<^verbatim>\<open>test_summaries\<close>.\<close>

definition test_summaries_try :: "'n requests_post \<Rightarrow> pystr \<Rightarrow> (unit, 'n) act" where
  "test_summaries_try requests_post text =
     bind_act (post requests_post (BASE_URL @ ascii ''/summaries'')
                 (JObj [(ascii ''text'', JStr text)]) 5) (\<lambda>response.
     seq_acts [
       print_line [Text (ascii ''Status Code: '' @ str_int (resp_status_code response))],
       if resp_status_code response = 200 then
         bind_act (lift_act (response_json response)) (\<lambda>data.
         bind_act (lift_act (getitem data (ascii ''summary''))) (\<lambda>summary.
         bind_act (lift_act (split_method summary)) (\<lambda>words.
         let word_count = length words in
         seq_acts [
           print_line [Text (check_mark @ ascii '' Success!'')],
           print_line [Text (ascii ''Summary: ''), StrOfJson summary],
           print_line [Text (ascii ''Summary word count: '' @ str_nat word_count)],
           bind_act (lift_act (getitem data (ascii ''word_count''))) (\<lambda>v.
             print_line [Text (ascii ''API word_count field: ''), StrOfJson v]),
           bind_act (lift_act (getitem data (ascii ''timestamp''))) (\<lambda>v.
             print_line [Text (ascii ''Timestamp: ''), StrOfJson v]),
           verify_word_count text word_count
         ])))
       else
         seq_acts [
           print_line [Text (cross_mark @ ascii '' Error: '' @
             str_int (resp_status_code response))],
           print_line [Text (ascii ''Response: '' @ resp_text response)]
         ]
     ])"

definition test_summaries :: "'n requests_post \<Rightarrow> pystr \<Rightarrow> pystr \<Rightarrow> (unit, 'n) act" where
  "test_summaries requests_post text description =
     seq_acts [
       print_line [Text (newline @ rule60)],
       print_line [Text (ascii ''Test: '' @ description)],
       print_line [Text rule60],
       print_line [Text (ascii ''Input text: '' @ text)],
       print_line [Text (ascii ''Input word count: '' @ str_nat (length (str_split text)))],
       try_except (test_summaries_try requests_post text) (\<lambda>e.
         if is_ConnectionError e then
           seq_acts [
             print_line [Text (cross_mark @ ascii '' Error: Could not connect to server.'')],
             print_line [Text (ascii
               ''   Make sure the server is running: uvicorn main:app --reload'')]
           ]
         else
           print_line [Text (cross_mark @ ascii '' Error: ''), StrOfExn e])
     ]"

text \<open>Test 7 of \<^verbatim>\<open>main\<close>, the empty string: the banner and the \<^verbatim>\<open>try\<close> statement that follows it.\<close>

definition empty_string_try :: "'n requests_post \<Rightarrow> (unit, 'n) act" where
  "empty_string_try requests_post =
     bind_act (post requests_post (BASE_URL @ ascii ''/summaries'')
                 (JObj [(ascii ''text'', JStr [])]) 5) (\<lambda>response.
     seq_acts [
       print_line [Text (ascii ''Status Code: '' @ str_int (resp_status_code response))],
       if resp_status_code response = 422 then
         print_line [Text (check_mark @ ascii '' Correct: Validation error as expected'')]
       else
         print_line [Text (cross_mark @ ascii '' Unexpected status code: '' @
           str_int (resp_status_code response))],
       print_line [Text (ascii ''Response: '' @ resp_text response)]
     ])"

definition empty_string_case :: "'n requests_post \<Rightarrow> (unit, 'n) act" where
  "empty_string_case requests_post =
     seq_acts [
       print_line [Text (newline @ rule60)],
       print_line [Text (ascii ''Test: Empty string (should return validation error)'')],
       print_line [Text rule60],
       try_except (empty_string_try requests_post) (\<lambda>e.
         print_line [Text (cross_mark @ ascii '' Error: ''), StrOfExn e])
     ]"

text \<open>The six literal inputs of \<^verbatim>\<open>main\<close>, each with its description, in the order of the calls.\<close>

definition test_inputs :: "(pystr \<times> pystr) list" where
  "test_inputs = [
     (ascii ''This is a test sentence with exactly fifteen words in total for testing purposes'',
      ascii ''More than 10 words (should return exactly 10)''),
     (ascii ''one two three four five six seven eight nine ten'',
      ascii ''Exactly 10 words (should return all 10)''),
     (ascii ''Hello world from the API'',
      ascii ''Less than 10 words (should return all words)''),
     (ascii ''The quick brown fox jumps over the lazy dog and then runs through the forest to find food and water for survival in the wilderness during the cold winter months when resources are scarce and animals must adapt'',
      ascii ''Long paragraph (should return first 10 words)''),
     (ascii ''  word1   word2    word3  word4  word5  word6  word7  word8  word9  word10  word11  word12  '',
      ascii ''Multiple whitespaces (should handle correctly)''),
     (ascii ''Hello'',
      ascii ''Single word'')]"

definition main :: "'n requests_post \<Rightarrow> (unit, 'n) act" where
  "main requests_post =
     seq_acts (
       [print_line [Text (newline @ rule60)],
        print_line [Text (ascii ''Testing POST /summaries Endpoint'')],
        print_line [Text rule60]] @
       map (\<lambda>(text, description). test_summaries requests_post text description) test_inputs @
       [empty_string_case requests_post,
        print_line [Text (newline @ rule60)],
        print_line [Text (ascii ''Testing Complete!'')],
        print_line [Text (rule60 @ newline)]])"

text \<open>
  \<^verbatim>\<open>if __name__ == "__main__": main()\<close>: the process exits with status 0 when \<open>main\<close>
  returns, and with status 1 when an exception leaves it.
\<close>

definition run_script :: "'n requests_post \<Rightarrow> 'n probe_world \<Rightarrow> int \<times> 'n probe_world" where
  "run_script requests_post w =
     (case main requests_post w of (Inr _, w1) \<Rightarrow> (0, w1) | (Inl e, w1) \<Rightarrow> (1, w1))"

text \<open>What a run has printed beyond what was on the screen before it.\<close>

definition emitted :: "'n probe_world \<Rightarrow> 'n probe_world \<Rightarrow> line list" where
  "emitted w w1 = drop (length (printed w)) (printed w1)"


definition validation_marker :: line where
  "validation_marker = [Text (check_mark @ ascii '' Correct: Validation error as expected'')]"

definition connection_hint :: line where
  "connection_hint =
     [Text (ascii ''   Make sure the server is running: uvicorn main:app --reload'')]"

definition generic_report :: "exn \<Rightarrow> line" where
  "generic_report e = [Text (cross_mark @ ascii '' Error: ''), StrOfExn e]"

text \<open>The line that \<open>verify_word_count\<close> prints, as a function of the two word counts.\<close>

definition verdict_line :: "pystr \<Rightarrow> nat \<Rightarrow> line" where
  "verdict_line text word_count =
     (if length (str_split text) > 10 \<or> length (str_split text) = 10 then
        (if word_count = 10 then
           (if length (str_split text) > 10 then
              [Text (check_mark @ ascii '' Correct: Returned exactly 10 words as expected'')]
            else [Text (check_mark @ ascii '' Correct: Returned all 10 words'')])
         else [Text (cross_mark @ ascii '' Error: Expected 10 words, got '' @ str_nat word_count)])
      else
        (if word_count = length (str_split text) then
           [Text (check_mark @ ascii '' Correct: Returned all '' @ str_nat word_count @
              ascii '' words (less than 10)'')]
         else
           [Text (cross_mark @ ascii '' Error: Expected '' @
              str_nat (length (str_split text)) @ ascii '' words, got '' @
              str_nat word_count)]))"

text \<open>The five lines that \<open>test_summaries\<close> prints before its \<^verbatim>\<open>try\<close> statement.\<close>

definition banner :: "pystr \<Rightarrow> pystr \<Rightarrow> line list" where
  "banner text description =
     [[Text (newline @ rule60)],
      [Text (ascii ''Test: '' @ description)],
      [Text rule60],
      [Text (ascii ''Input text: '' @ text)],
      [Text (ascii ''Input word count: '' @ str_nat (length (str_split text)))]]"

text \<open>
  Recording requests: \<open>logged requests_post\<close> answers as \<open>requests_post\<close> does and appends
  the arguments of each call to a log beside the network state.
\<close>

definition logged ::
  "'n requests_post \<Rightarrow> ('n \<times> (pystr \<times> json \<times> nat) list) requests_post" where
  "logged requests_post url payload timeout s =
     (case requests_post url payload timeout (fst s) of
        (r, n1) \<Rightarrow> (r, (n1, snd s @ [(url, payload, timeout)])))"

section \<open>Example runs\<close>

text \<open>
  A request for \<^verbatim>\<open>/summaries\<close>, a world whose clock reads 10 seconds, a handler that answers
  200 after a quarter of a second and one that raises after a second.
\<close>

definition request0 :: "unit request" where
  "request0 = \<lparr>url_path = ascii ''/summaries'', scope = ()\<rparr>"

definition world0 :: "unit world" where
  "world0 = \<lparr>clock = 10, stdout = [], app = ()\<rparr>"

definition handler_ok :: "(unit, unit, string, unit) call_next" where
  "handler_ok request w = (Inr \<lparr>status_code = 200, body = ()\<rparr>, w\<lparr>clock := clock w + 1 / 4\<rparr>)"

definition handler_fails :: "(unit, unit, string, unit) call_next" where
  "handler_fails request w = (Inl ''boom'', w\<lparr>clock := clock w + 1\<rparr>)"

text \<open>A handler during whose run the wall clock is set back by a second.\<close>

definition handler_back :: "(unit, unit, string, unit) call_next" where
  "handler_back request w = (Inr \<lparr>status_code = 200, body = ()\<rparr>, w\<lparr>clock := clock w - 1\<rparr>)"

text \<open>
  For the probe script: a fresh terminal, and six servers. One answers in full, one
  answers 200 with a summary and nothing else, one answers in full with a summary whose
  first word is a lone surrogate, one rejects every request with 422 and a body that is
  not JSON, one answers 200 with a body that is not JSON, and one is not running.
\<close>

definition probe0 :: "unit probe_world" where
  "probe0 = \<lparr>printed = [], net = ()\<rparr>"




definition server_rejects :: "unit requests_post" where
  "server_rejects url payload timeout n =
     (Inr \<lparr>resp_status_code = 422, resp_text = ascii ''Unprocessable'',
        resp_json = Inl (ascii ''Expecting value'')\<rparr>, n)"

definition server_not_json :: "unit requests_post" where
  "server_not_json url payload timeout n =
     (Inr \<lparr>resp_status_code = 200, resp_text = ascii ''<html>'',
        resp_json = Inl (ascii ''Expecting value'')\<rparr>, n)"

definition server_down :: "unit requests_post" where
  "server_down url payload timeout n = (Inl (ConnectionError (ascii ''refused'')), n)"

section \<open>Numbers and their printed form\<close>

lemma round_half_even_nonneg: "0 \<le> y \<Longrightarrow> 0 \<le> round_half_even y"
  by (auto simp: round_half_even_def Let_def)

lemma round_half_even_close: "\<bar>of_int (round_half_even y) - y\<bar> \<le> 1 / 2"
proof -
  have "of_int \<lfloor>y\<rfloor> \<le> y" "y < of_int \<lfloor>y\<rfloor> + 1"
    by linarith+
  then show ?thesis
    unfolding round_half_even_def Let_def by (simp add: abs_le_iff)
qed

lemma float_round_nonneg: "0 \<le> x \<Longrightarrow> 0 \<le> float_round x"
  by (auto simp: float_round_def Let_def
      intro!: mult_nonneg_nonneg round_half_even_nonneg divide_nonneg_pos)

lemma is_digit_digit_char: "d < 10 \<Longrightarrow> is_digit (digit_char d)"
  by (simp add: is_digit_def digit_char_def)

lemma str_nat_digits: "list_all is_digit (str_nat n)"
proof (induction n rule: str_nat.induct)
  case (1 n)
  then show ?case
    by (subst str_nat.simps) (simp add: is_digit_digit_char)
qed

lemma str_nat_nonempty: "str_nat n \<noteq> []"
  by (subst str_nat.simps) simp

lemma digits_value_snoc: "digits_value (ds @ [c]) = 10 * digits_value ds + (c - 48)"
  by (simp add: digits_value_def)

lemma digits_value_str_nat: "digits_value (str_nat n) = n"
proof (induction n rule: str_nat.induct)
  case (1 n)
  show ?case
  proof (cases "n < 10")
    case True
    then show ?thesis
      by (subst str_nat.simps) (simp add: digits_value_def digit_char_def)
  next
    case False
    with 1 have "digits_value (str_nat (n div 10)) = n div 10"
      by simp
    with False show ?thesis
      by (subst str_nat.simps) (simp add: digits_value_snoc digit_char_def)
  qed
qed

lemma two_digits_value:
  "digits_value [digit_char (n mod 100 div 10), digit_char (n mod 10)] = n mod 100"
proof -
  have "n mod 10 = n mod 100 mod 10"
    by (simp add: mod_mod_cancel)
  then have "10 * (n mod 100 div 10) + n mod 10 = n mod 100"
    by simp
  then show ?thesis
    by (simp add: digits_value_def digit_char_def)
qed

lemma two_digits_are_digits:
  "list_all is_digit [digit_char (n mod 100 div 10), digit_char (n mod 10)]"
proof -
  have "n mod 100 < 100"
    by simp
  then have "n mod 100 div 10 < 10"
    by (simp add: less_mult_imp_div_less)
  moreover have "n mod 10 < 10"
    by simp
  ultimately show ?thesis
    by (simp add: is_digit_digit_char)
qed

lemma cents_close:
  fixes c a :: rat
  assumes "\<bar>c - a * 100\<bar> \<le> 1 / 2"
  shows "\<bar>c / 100 - a\<bar> \<le> 1 / 200"
  using assms by linarith

lemma format_2f_shape:
  "\<exists>sign whole decimals.
     format_2f d = sign @ whole @ ascii ''.'' @ decimals \<and>
     sign = (if d < 0 then ascii ''-'' else []) \<and>
     whole \<noteq> [] \<and> list_all is_digit whole \<and>
     length decimals = 2 \<and> list_all is_digit decimals \<and>
     \<bar>of_nat (100 * digits_value whole + digits_value decimals) / 100 - \<bar>d\<bar>\<bar> \<le> 1 / 200"
proof -
  define n where "n = nat (round_half_even (\<bar>d\<bar> * 100))"
  define ds where "ds = [digit_char (n mod 100 div 10), digit_char (n mod 10)]"
  have nn: "0 \<le> round_half_even (\<bar>d\<bar> * 100)"
    by (rule round_half_even_nonneg) simp
  have val: "100 * digits_value (str_nat (n div 100)) + digits_value ds = n"
    by (simp add: digits_value_str_nat two_digits_value ds_def)
  have "\<bar>of_int (round_half_even (\<bar>d\<bar> * 100)) - \<bar>d\<bar> * 100\<bar> \<le> (1 / 2 :: rat)"
    by (rule round_half_even_close)
  with nn have "\<bar>(of_nat n :: rat) - \<bar>d\<bar> * 100\<bar> \<le> 1 / 2"
    by (simp add: n_def)
  then have close: "\<bar>(of_nat n :: rat) / 100 - \<bar>d\<bar>\<bar> \<le> 1 / 200"
    by (rule cents_close)
  have f: "format_2f d =
      (if d < 0 then ascii ''-'' else []) @ str_nat (n div 100) @ ascii ''.'' @ ds"
    by (simp add: format_2f_def Let_def n_def ds_def)
  have len: "length ds = 2"
    by (simp add: ds_def)
  have dig: "list_all is_digit ds"
    unfolding ds_def by (rule two_digits_are_digits)
  have num: "\<bar>of_nat (100 * digits_value (str_nat (n div 100)) + digits_value ds) / 100 - \<bar>d\<bar>\<bar>
      \<le> (1 / 200 :: rat)"
    unfolding val by (rule close)
  show ?thesis
  proof (intro exI conjI)
    show "format_2f d =
        (if d < 0 then ascii ''-'' else []) @ str_nat (n div 100) @ ascii ''.'' @ ds"
      by (rule f)
    show "(if d < 0 then ascii ''-'' else []) = (if d < 0 then ascii ''-'' else [])"
      by (rule refl)
    show "str_nat (n div 100) \<noteq> []"
      by (rule str_nat_nonempty)
    show "list_all is_digit (str_nat (n div 100))"
      by (rule str_nat_digits)
    show "length ds = 2"
      by (rule len)
    show "list_all is_digit ds"
      by (rule dig)
    show "\<bar>of_nat (100 * digits_value (str_nat (n div 100)) + digits_value ds) / 100 - \<bar>d\<bar>\<bar>
        \<le> (1 / 200 :: rat)"
      by (rule num)
  qed
qed

section \<open>Timing Interceptor: the claims\<close>

lemma dispatch_success:
  assumes "call_next request w = (Inr response, w1)"
  shows "dispatch request call_next w =
    (Inr response,
     py_print (log_line (url_path request)
       (execution_time_ms (time_time w) (time_time w1)) (status_code response)) w1)"
  using assms by (simp add: dispatch_def Let_def)

lemma dispatch_failure:
  assumes "call_next request w = (Inl e, w1)"
  shows "dispatch request call_next w = (Inl e, w1)"
  using assms by (simp add: dispatch_def Let_def)

lemma without_with_count: "without_count (with_count w n) = w"
  by (simp add: without_count_def with_count_def)

lemma counted_run:
  assumes "call_next request w = (r, w1)"
  shows "counted call_next request (with_count w n) = (r, with_count w1 (Suc n))"
  using assms by (simp add: counted_def without_with_count) (simp add: with_count_def)

lemma log_line_format:
  "log_line p ms code =
     ascii ''[LOG] Path: '' @ p @ ascii '' | Execution Time: '' @ format_2f ms @
     ascii ''ms | Status: '' @ str_int code"
  by (simp add: log_line_def ascii_def)

text \<open>
  C1. The response that \<open>dispatch\<close> returns is the one the continuation returned: the same
  value, with its status code and its body.
\<close>

theorem dispatch_returns_response:
  assumes "call_next request w = (Inr response, w1)"
  shows "fst (dispatch request call_next w) = Inr response"
  using assms by (simp add: dispatch_success)

theorem dispatch_returns_response_witness:
  "fst (dispatch request0 handler_ok world0) = Inr \<lparr>status_code = 200, body = ()\<rparr>"
proof -
  have h: "handler_ok request0 world0 =
      (Inr \<lparr>status_code = 200, body = ()\<rparr>, world0\<lparr>clock := clock world0 + 1 / 4\<rparr>)"
    by (simp add: handler_ok_def)
  show ?thesis
    using dispatch_returns_response [where call_next = handler_ok and request = request0 and w = world0, OF h] by simp
qed

text \<open>
  C2. Whatever the continuation does, one run of \<open>dispatch\<close> invokes it once: the counter of
  invocations goes from \<open>n\<close> to \<open>Suc n\<close>, and the outcome, the application state and the
  clock are those the one call from the initial world left. The duration in the log line
  is computed from the clock as the continuation left it, after it completed.
\<close>

theorem dispatch_invokes_call_next_once:
  assumes "call_next request w = (r, w1)"
  shows "fst (dispatch request (counted call_next) (with_count w n)) = r \<and>
    app (snd (dispatch request (counted call_next) (with_count w n))) = (app w1, Suc n) \<and>
    clock (snd (dispatch request (counted call_next) (with_count w n))) = clock w1 \<and>
    stdout (snd (dispatch request (counted call_next) (with_count w n))) =
      (case r of
         Inl e \<Rightarrow> stdout w1
       | Inr response \<Rightarrow>
           stdout w1 @ [log_line (url_path request)
             (execution_time_ms (clock w) (clock w1)) (status_code response)])"
proof (cases r)
  case (Inl e)
  with assms have "counted call_next request (with_count w n) = (Inl e, with_count w1 (Suc n))"
    by (simp add: counted_run)
  then have "dispatch request (counted call_next) (with_count w n) =
      (Inl e, with_count w1 (Suc n))"
    by (rule dispatch_failure)
  with Inl show ?thesis
    by (simp add: with_count_def)
next
  case (Inr response)
  with assms have "counted call_next request (with_count w n) =
      (Inr response, with_count w1 (Suc n))"
    by (simp add: counted_run)
  then have "dispatch request (counted call_next) (with_count w n) =
      (Inr response,
       py_print (log_line (url_path request)
         (execution_time_ms (time_time (with_count w n)) (time_time (with_count w1 (Suc n))))
         (status_code response)) (with_count w1 (Suc n)))"
    by (rule dispatch_success)
  with Inr show ?thesis
    by (simp add: with_count_def py_print_def time_time_def)
qed

theorem dispatch_invokes_call_next_once_witness:
  "fst (dispatch request0 (counted handler_ok) (with_count world0 0)) =
     Inr \<lparr>status_code = 200, body = ()\<rparr> \<and>
   app (snd (dispatch request0 (counted handler_ok) (with_count world0 0))) = ((), 1) \<and>
   clock (snd (dispatch request0 (counted handler_ok) (with_count world0 0))) = 41 / 4"
proof -
  have h: "handler_ok request0 world0 =
      (Inr \<lparr>status_code = 200, body = ()\<rparr>, world0\<lparr>clock := clock world0 + 1 / 4\<rparr>)"
    by (simp add: handler_ok_def)
  show ?thesis
    using dispatch_invokes_call_next_once
        [where call_next = handler_ok and request = request0 and w = world0 and n = 0, OF h] by (simp add: world0_def)
qed

text \<open>
  C3. When the continuation raises, \<open>dispatch\<close> raises the same exception and leaves the
  world as the continuation left it: nothing is printed on that path.
\<close>

theorem dispatch_propagates_error:
  assumes "call_next request w = (Inl e, w1)"
  shows "dispatch request call_next w = (Inl e, w1) \<and>
    stdout (snd (dispatch request call_next w)) = stdout w1"
  using assms by (simp add: dispatch_failure)

theorem dispatch_propagates_error_witness:
  "dispatch request0 handler_fails world0 = (Inl ''boom'', world0\<lparr>clock := 11\<rparr>) \<and>
   stdout (snd (dispatch request0 handler_fails world0)) = []"
proof -
  have h: "handler_fails request0 world0 = (Inl ''boom'', world0\<lparr>clock := clock world0 + 1\<rparr>)"
    by (simp add: handler_fails_def)
  show ?thesis
    using dispatch_propagates_error
        [where call_next = handler_fails and request = request0 and w = world0, OF h] by (simp add: world0_def)
qed

text \<open>
  C4. When the continuation returns a response, \<open>dispatch\<close> adds one line to what has been
  printed, the line
  \<^verbatim>\<open>[LOG] Path: <path> | Execution Time: <duration>ms | Status: <status_code>\<close>
  with the path of the request, the status code of the response, and the elapsed
  milliseconds in fixed notation: a minus sign when negative, at least one digit, a point
  and two digits, denoting a number within 0.005 of the duration.
\<close>

theorem dispatch_log_record:
  assumes "call_next request w = (Inr response, w1)"
  shows "stdout (snd (dispatch request call_next w)) =
      stdout w1 @
      [ascii ''[LOG] Path: '' @ url_path request @ ascii '' | Execution Time: '' @
       format_2f (execution_time_ms (time_time w) (time_time w1)) @ ascii ''ms | Status: '' @
       str_int (status_code response)] \<and>
    (\<exists>sign whole decimals.
       format_2f (execution_time_ms (time_time w) (time_time w1)) =
         sign @ whole @ ascii ''.'' @ decimals \<and>
       sign = (if execution_time_ms (time_time w) (time_time w1) < 0 then ascii ''-'' else []) \<and>
       whole \<noteq> [] \<and> list_all is_digit whole \<and>
       length decimals = 2 \<and> list_all is_digit decimals \<and>
       \<bar>of_nat (100 * digits_value whole + digits_value decimals) / 100 -
         \<bar>execution_time_ms (time_time w) (time_time w1)\<bar>\<bar> \<le> 1 / 200)"
proof (rule conjI)
  have "stdout (snd (dispatch request call_next w)) =
      stdout w1 @ [log_line (url_path request)
        (execution_time_ms (time_time w) (time_time w1)) (status_code response)]"
    using assms by (simp add: dispatch_success py_print_def)
  then show "stdout (snd (dispatch request call_next w)) =
      stdout w1 @
      [ascii ''[LOG] Path: '' @ url_path request @ ascii '' | Execution Time: '' @
       format_2f (execution_time_ms (time_time w) (time_time w1)) @ ascii ''ms | Status: '' @
       str_int (status_code response)]"
    by (simp only: log_line_format)
qed (rule format_2f_shape)

theorem dispatch_log_record_witness:
  "stdout (snd (dispatch request0 handler_ok world0)) =
     [ascii ''[LOG] Path: /summaries | Execution Time: 250.00ms | Status: 200'']"
proof -
  have h: "handler_ok request0 world0 =
      (Inr \<lparr>status_code = 200, body = ()\<rparr>, world0\<lparr>clock := clock world0 + 1 / 4\<rparr>)"
    by (simp add: handler_ok_def)
  have t: "time_time world0 = 10" "time_time (world0\<lparr>clock := clock world0 + 1 / 4\<rparr>) = 41 / 4"
    by (simp_all add: time_time_def world0_def)
  have d: "execution_time_ms 10 (41 / 4) = 250"
    by code_simp
  have f: "format_2f 250 = ascii ''250.00''"
    by (simp add: format_2f_def round_half_even_def Let_def digit_char_def ascii_def
        str_nat.simps [of 250] str_nat.simps [of 25] str_nat.simps [of 2])
  have s: "str_int 200 = ascii ''200''"
    by (simp add: str_int_def digit_char_def ascii_def
        str_nat.simps [of 200] str_nat.simps [of 20] str_nat.simps [of 2])
  have "stdout (snd (dispatch request0 handler_ok world0)) =
      stdout (world0\<lparr>clock := clock world0 + 1 / 4\<rparr>) @
      [ascii ''[LOG] Path: '' @ url_path request0 @ ascii '' | Execution Time: '' @
       format_2f (execution_time_ms (time_time world0)
         (time_time (world0\<lparr>clock := clock world0 + 1 / 4\<rparr>))) @
       ascii ''ms | Status: '' @ str_int (status_code \<lparr>status_code = 200, body = ()\<rparr>)]"
    by (rule dispatch_log_record
        [where call_next = handler_ok and request = request0 and w = world0,
         OF h, THEN conjunct1])
  then show ?thesis
    by (simp add: t d f s) (simp add: world0_def request0_def ascii_def)
qed

lemma execution_time_ms_nonneg:
  assumes "start_time \<le> end_time"
  shows "0 \<le> execution_time_ms start_time end_time"
  using assms
  by (simp add: execution_time_ms_def float_mul_def float_sub_def float_round_nonneg)

lemma execution_time_ms_example: "execution_time_ms 10 (41 / 4) = 250"
  by code_simp

lemma execution_time_ms_clock_set_back: "execution_time_ms 10 9 = - 1000"
  by code_simp

lemma format_2f_nonneg_digit:
  assumes "0 \<le> d"
  shows "is_digit (hd (format_2f d))"
proof -
  define n where "n = nat (round_half_even (\<bar>d\<bar> * 100))"
  obtain c cs where c: "str_nat (n div 100) = c # cs"
    using str_nat_nonempty [of "n div 100"] by (cases "str_nat (n div 100)") simp_all
  with str_nat_digits [of "n div 100"] have "is_digit c"
    by simp
  with assms c show ?thesis
    by (simp add: format_2f_def Let_def n_def)
qed

text \<open>
  C6, for a clock that is not set back. The two readings of \<^verbatim>\<open>time.time()\<close> are readings of
  the wall clock, before and after the continuation. When the second reading is not
  smaller than the first, the duration that \<open>dispatch\<close> logs, computed in binary64
  arithmetic, is not negative, and its printed form starts with a digit.
\<close>

theorem dispatch_duration_nonneg:
  assumes "call_next request w = (Inr response, w1)"
    and "time_time w \<le> time_time w1"
  shows "0 \<le> execution_time_ms (time_time w) (time_time w1) \<and>
    stdout (snd (dispatch request call_next w)) =
      stdout w1 @ [log_line (url_path request)
        (execution_time_ms (time_time w) (time_time w1)) (status_code response)] \<and>
    is_digit (hd (format_2f (execution_time_ms (time_time w) (time_time w1))))"
proof (intro conjI)
  show nonneg: "0 \<le> execution_time_ms (time_time w) (time_time w1)"
    using assms(2) by (rule execution_time_ms_nonneg)
  show "stdout (snd (dispatch request call_next w)) =
      stdout w1 @ [log_line (url_path request)
        (execution_time_ms (time_time w) (time_time w1)) (status_code response)]"
    using assms(1) by (simp add: dispatch_success py_print_def)
  show "is_digit (hd (format_2f (execution_time_ms (time_time w) (time_time w1))))"
    using nonneg by (rule format_2f_nonneg_digit)
qed

theorem dispatch_duration_nonneg_witness:
  "(0 :: rat) \<le> execution_time_ms 10 (41 / 4) \<and>
   stdout (snd (dispatch request0 handler_ok world0)) =
     [log_line (ascii ''/summaries'') (execution_time_ms 10 (41 / 4)) 200]"
proof -
  have h: "handler_ok request0 world0 =
      (Inr \<lparr>status_code = 200, body = ()\<rparr>, world0\<lparr>clock := clock world0 + 1 / 4\<rparr>)"
    by (simp add: handler_ok_def)
  have t: "time_time world0 = 10" "time_time (world0\<lparr>clock := clock world0 + 1 / 4\<rparr>) = 41 / 4"
    by (simp_all add: time_time_def world0_def)
  have le: "time_time world0 \<le> time_time (world0\<lparr>clock := clock world0 + 1 / 4\<rparr>)"
    by (simp add: t)
  show ?thesis
    using dispatch_duration_nonneg
      [where call_next = handler_ok and request = request0 and w = world0, OF h le]
    by (simp add: t) (simp add: world0_def request0_def)
qed

text \<open>
  C6 as stated fails when the wall clock is set back while the continuation runs: the
  second reading is taken after the first and is smaller, and \<open>dispatch\<close> logs a negative
  duration.
\<close>

theorem dispatch_duration_counterexample:
  "handler_back request0 world0 =
     (Inr \<lparr>status_code = 200, body = ()\<rparr>, world0\<lparr>clock := 9\<rparr>) \<and>
   time_time world0 = 10 \<and> time_time (world0\<lparr>clock := 9\<rparr>) = 9 \<and>
   execution_time_ms 10 9 = - 1000 \<and>
   \<not> 0 \<le> execution_time_ms 10 9 \<and>
   stdout (snd (dispatch request0 handler_back world0)) =
     [ascii ''[LOG] Path: /summaries | Execution Time: -1000.00ms | Status: 200'']"
proof -
  have h: "handler_back request0 world0 =
      (Inr \<lparr>status_code = 200, body = ()\<rparr>, world0\<lparr>clock := 9\<rparr>)"
    by (simp add: handler_back_def world0_def)
  have t: "time_time world0 = 10" "time_time (world0\<lparr>clock := 9\<rparr>) = 9"
    by (simp_all add: time_time_def world0_def)
  have f: "format_2f (- 1000) = ascii ''-1000.00''"
    by (simp add: format_2f_def round_half_even_def Let_def digit_char_def ascii_def
        str_nat.simps [of 1000] str_nat.simps [of 100] str_nat.simps [of 10]
        str_nat.simps [of "Suc 0"])
  have s: "str_int 200 = ascii ''200''"
    by (simp add: str_int_def digit_char_def ascii_def
        str_nat.simps [of 200] str_nat.simps [of 20] str_nat.simps [of 2])
  have "stdout (snd (dispatch request0 handler_back world0)) =
      stdout (world0\<lparr>clock := 9\<rparr>) @
      [log_line (url_path request0)
        (execution_time_ms (time_time world0) (time_time (world0\<lparr>clock := 9\<rparr>)))
        (status_code \<lparr>status_code = 200, body = ()\<rparr>)]"
    using h by (simp add: dispatch_success py_print_def)
  then have "stdout (snd (dispatch request0 handler_back world0)) =
     [ascii ''[LOG] Path: /summaries | Execution Time: -1000.00ms | Status: 200'']"
    by (simp add: t execution_time_ms_clock_set_back log_line_format f s)
      (simp add: world0_def request0_def ascii_def)
  with h t show ?thesis
    by (simp add: execution_time_ms_clock_set_back)
qed

section \<open>Endpoint Probe Script: what print can encode\<close>

lemma encodable_Nil [simp]: "encodable []"
  by (simp add: encodable_def)

lemma encodable_Cons [simp]: "encodable (c # cs) \<longleftrightarrow> \<not> is_surrogate c \<and> encodable cs"
  by (simp add: encodable_def)

lemma encodable_append [simp]: "encodable (a @ b) \<longleftrightarrow> encodable a \<and> encodable b"
  by (induction a) simp_all

lemma of_char_not_surrogate [simp]: "\<not> is_surrogate (of_char c)"
  using nat_of_char_less_256 [of c] unfolding is_surrogate_def by linarith

lemma encodable_ascii [simp]: "encodable (ascii s)"
  by (induction s) (simp_all add: ascii_def)

lemma digit_not_surrogate: "is_digit c \<Longrightarrow> \<not> is_surrogate c"
  by (simp add: is_digit_def is_surrogate_def)

lemma digits_encodable: "list_all is_digit s \<Longrightarrow> encodable s"
  by (induction s) (simp_all add: digit_not_surrogate)

lemma encodable_str_nat [simp]: "encodable (str_nat n)"
  by (rule digits_encodable) (rule str_nat_digits)

lemma encodable_str_int [simp]: "encodable (str_int i)"
  by (simp add: str_int_def)

lemma encodable_marks [simp]:
  "encodable check_mark" "encodable cross_mark" "encodable newline" "encodable rule60"
  by (simp_all add: check_mark_def cross_mark_def newline_def rule60_def is_surrogate_def
      encodable_def list_ex_iff)

lemma verdict_line_encodable [simp]: "list_all frag_encodable (verdict_line text word_count)"
  by (simp add: verdict_line_def)

lemma report_lines_encodable [simp]:
  "list_all frag_encodable (generic_report e)"
  "list_all frag_encodable connection_hint"
  "list_all frag_encodable validation_marker"
  by (simp_all add: generic_report_def connection_hint_def validation_marker_def)

lemma print_line_encodable:
  "list_all frag_encodable l \<Longrightarrow>
     print_line l w = (Inr (), w\<lparr>printed := printed w @ [l]\<rparr>)"
  by (simp add: print_line_def)

lemma print_line_surrogate:
  "\<not> list_all frag_encodable l \<Longrightarrow> print_line l w = (Inl UnicodeEncodeError, w)"
  by (simp add: print_line_def)

section \<open>Endpoint Probe Script: runs of a test case\<close>

lemmas act_defs =
  bind_act_def return_act_def lift_act_def print_line_def try_except_def post_def

lemma bind_act_return: "bind_act m return_act = m"
proof
  fix w
  show "bind_act m return_act w = m w"
    by (cases "m w") (auto simp: bind_act_def return_act_def split: sum.splits)
qed

lemma seq_acts_single: "seq_acts [a] = a"
  by (simp add: bind_act_return)

lemma verify_word_count_prints:
  "verify_word_count text word_count = print_line (verdict_line text word_count)"
  by (auto simp: verify_word_count_def verdict_line_def)


lemma rule60_Cons: "rule60 = 61 # replicate 59 61"
proof -
  have "replicate (Suc 59) (61 :: nat) = 61 # replicate 59 61"
    by (rule replicate.simps)
  then show ?thesis
    by (simp add: rule60_def)
qed



lemma test_summaries_unfold:
  assumes "encodable text" and "encodable description"
  shows "test_summaries requests_post text description w =
     try_except (test_summaries_try requests_post text) (\<lambda>e.
         if is_ConnectionError e then
           seq_acts [
             print_line [Text (cross_mark @ ascii '' Error: Could not connect to server.'')],
             print_line connection_hint
           ]
         else
           print_line (generic_report e))
       (w\<lparr>printed := printed w @ banner text description\<rparr>)"
proof -
  have "test_summaries requests_post text description w =
      bind_act (print_line [Text (newline @ rule60)]) (\<lambda>_.
      bind_act (print_line [Text (ascii ''Test: '' @ description)]) (\<lambda>_.
      bind_act (print_line [Text rule60]) (\<lambda>_.
      bind_act (print_line [Text (ascii ''Input text: '' @ text)]) (\<lambda>_.
      bind_act (print_line
        [Text (ascii ''Input word count: '' @ str_nat (length (str_split text)))]) (\<lambda>_.
      try_except (test_summaries_try requests_post text) (\<lambda>e.
         if is_ConnectionError e then
           seq_acts [
             print_line [Text (cross_mark @ ascii '' Error: Could not connect to server.'')],
             print_line connection_hint
           ]
         else
           print_line (generic_report e))))))) w"
    unfolding test_summaries_def connection_hint_def generic_report_def
    by (simp add: bind_act_return)
  then show ?thesis
    using assms by (simp add: banner_def bind_act_def print_line_def)
qed

text \<open>The generic handler prints what \<^verbatim>\<open>print\<close> can encode, so it returns.\<close>

lemma handler_generic:
  "print_line (generic_report e) w = (Inr (), w\<lparr>printed := printed w @ [generic_report e]\<rparr>)"
  by (simp add: print_line_def)


lemma emitted_append: "emitted w (w\<lparr>net := n, printed := printed w @ ls\<rparr>) = ls"
  by (simp add: emitted_def)


lemma test_summaries_caught:
  assumes "test_summaries_try requests_post text
      (w\<lparr>printed := printed w @ banner text description\<rparr>) =
      (Inl e, w\<lparr>net := n1, printed := printed w @ banner text description @ ls\<rparr>)"
    and "\<not> is_ConnectionError e"
    and "encodable text"
    and "encodable description"
  shows "test_summaries requests_post text description w =
    (Inr (), w\<lparr>net := n1,
       printed := printed w @ banner text description @ ls @ [generic_report e]\<rparr>)"
  using assms(1,2)
  by (simp add: test_summaries_unfold [OF assms(3,4)] try_except_def handler_generic)

lemma try_bad_json:
  assumes "requests_post (BASE_URL @ ascii ''/summaries'')
      (JObj [(ascii ''text'', JStr text)]) 5 (net w) = (Inr response, n1)"
    and "resp_status_code response = 200"
    and "resp_json response = Inl msg"
  shows "test_summaries_try requests_post text w =
    (Inl (JSONDecodeError msg), w\<lparr>net := n1, printed := printed w @
      [[Text (ascii ''Status Code: '' @ str_int 200)]]\<rparr>)"
  using assms by (simp add: test_summaries_try_def act_defs response_json_def)

lemma try_no_summary:
  assumes "requests_post (BASE_URL @ ascii ''/summaries'')
      (JObj [(ascii ''text'', JStr text)]) 5 (net w) = (Inr response, n1)"
    and "resp_status_code response = 200"
    and "resp_json response = Inr (JObj items)"
    and "map_of items (ascii ''summary'') = None"
  shows "test_summaries_try requests_post text w =
    (Inl (KeyError (ascii ''summary'')), w\<lparr>net := n1, printed := printed w @
      [[Text (ascii ''Status Code: '' @ str_int 200)]]\<rparr>)"
  using assms by (simp add: test_summaries_try_def act_defs response_json_def)

lemma try_summary_not_str:
  assumes "requests_post (BASE_URL @ ascii ''/summaries'')
      (JObj [(ascii ''text'', JStr text)]) 5 (net w) = (Inr response, n1)"
    and "resp_status_code response = 200"
    and "resp_json response = Inr (JObj items)"
    and "map_of items (ascii ''summary'') = Some v"
    and "\<forall>s. v \<noteq> JStr s"
  shows "test_summaries_try requests_post text w =
    (Inl AttributeError, w\<lparr>net := n1, printed := printed w @
      [[Text (ascii ''Status Code: '' @ str_int 200)]]\<rparr>)"
  using assms
  by (cases v) (simp_all add: test_summaries_try_def act_defs response_json_def)

lemma try_summary_surrogate:
  assumes "requests_post (BASE_URL @ ascii ''/summaries'')
      (JObj [(ascii ''text'', JStr text)]) 5 (net w) = (Inr response, n1)"
    and "resp_status_code response = 200"
    and "resp_json response = Inr (JObj items)"
    and "map_of items (ascii ''summary'') = Some (JStr summary)"
    and "\<not> encodable summary"
  shows "test_summaries_try requests_post text w =
    (Inl UnicodeEncodeError, w\<lparr>net := n1, printed := printed w @
      [[Text (ascii ''Status Code: '' @ str_int 200)],
       [Text (check_mark @ ascii '' Success!'')]]\<rparr>)"
  using assms by (simp add: test_summaries_try_def act_defs response_json_def Let_def)

lemma try_no_word_count:
  assumes "requests_post (BASE_URL @ ascii ''/summaries'')
      (JObj [(ascii ''text'', JStr text)]) 5 (net w) = (Inr response, n1)"
    and "resp_status_code response = 200"
    and "resp_json response = Inr (JObj items)"
    and "map_of items (ascii ''summary'') = Some (JStr summary)"
    and "map_of items (ascii ''word_count'') = None"
    and "encodable summary"
  shows "test_summaries_try requests_post text w =
    (Inl (KeyError (ascii ''word_count'')), w\<lparr>net := n1, printed := printed w @
      [[Text (ascii ''Status Code: '' @ str_int 200)],
       [Text (check_mark @ ascii '' Success!'')],
       [Text (ascii ''Summary: ''), StrOfJson (JStr summary)],
       [Text (ascii ''Summary word count: '' @ str_nat (length (str_split summary)))]]\<rparr>)"
  using assms by (simp add: test_summaries_try_def act_defs response_json_def Let_def)

lemma try_word_count_surrogate:
  assumes "requests_post (BASE_URL @ ascii ''/summaries'')
      (JObj [(ascii ''text'', JStr text)]) 5 (net w) = (Inr response, n1)"
    and "resp_status_code response = 200"
    and "resp_json response = Inr (JObj items)"
    and "map_of items (ascii ''summary'') = Some (JStr summary)"
    and "map_of items (ascii ''word_count'') = Some v1"
    and "encodable summary"
    and "\<not> frag_encodable (StrOfJson v1)"
  shows "test_summaries_try requests_post text w =
    (Inl UnicodeEncodeError, w\<lparr>net := n1, printed := printed w @
      [[Text (ascii ''Status Code: '' @ str_int 200)],
       [Text (check_mark @ ascii '' Success!'')],
       [Text (ascii ''Summary: ''), StrOfJson (JStr summary)],
       [Text (ascii ''Summary word count: '' @ str_nat (length (str_split summary)))]]\<rparr>)"
  using assms by (simp add: test_summaries_try_def act_defs response_json_def Let_def)

lemma try_no_timestamp:
  assumes "requests_post (BASE_URL @ ascii ''/summaries'')
      (JObj [(ascii ''text'', JStr text)]) 5 (net w) = (Inr response, n1)"
    and "resp_status_code response = 200"
    and "resp_json response = Inr (JObj items)"
    and "map_of items (ascii ''summary'') = Some (JStr summary)"
    and "map_of items (ascii ''word_count'') = Some v1"
    and "map_of items (ascii ''timestamp'') = None"
    and "encodable summary"
    and "frag_encodable (StrOfJson v1)"
  shows "test_summaries_try requests_post text w =
    (Inl (KeyError (ascii ''timestamp'')), w\<lparr>net := n1, printed := printed w @
      [[Text (ascii ''Status Code: '' @ str_int 200)],
       [Text (check_mark @ ascii '' Success!'')],
       [Text (ascii ''Summary: ''), StrOfJson (JStr summary)],
       [Text (ascii ''Summary word count: '' @ str_nat (length (str_split summary)))],
       [Text (ascii ''API word_count field: ''), StrOfJson v1]]\<rparr>)"
  using assms by (simp add: test_summaries_try_def act_defs response_json_def Let_def)

section \<open>Endpoint Probe Script: the claims\<close>



lemma not_hint_simps:
  "[Text a, b] \<noteq> connection_hint"
  "[Text (newline @ s)] \<noteq> connection_hint"
  "[Text rule60] \<noteq> connection_hint"
  "[Text (ascii ''Test: '' @ s)] \<noteq> connection_hint"
  "[Text (ascii ''Input text: '' @ s)] \<noteq> connection_hint"
  "[Text (ascii ''Input word count: '' @ s)] \<noteq> connection_hint"
  "[Text (ascii ''Status Code: '' @ s)] \<noteq> connection_hint"
  "[Text (ascii ''Summary word count: '' @ s)] \<noteq> connection_hint"
  "[Text (check_mark @ s)] \<noteq> connection_hint"
  "[Text (cross_mark @ s)] \<noteq> connection_hint"
  by (simp_all add: connection_hint_def ascii_def newline_def rule60_Cons check_mark_def
      cross_mark_def)

lemma no_hint_in_banner: "\<not> list_ex (\<lambda>l. l = connection_hint) (banner text description)"
  by (simp add: banner_def not_hint_simps)




lemma empty_string_try_response:
  assumes "requests_post (BASE_URL @ ascii ''/summaries'')
      (JObj [(ascii ''text'', JStr [])]) 5 (net w) = (Inr response, n1)"
  shows "empty_string_try requests_post w =
    (if encodable (resp_text response) then
       (Inr (), w\<lparr>net := n1, printed := printed w @
         [[Text (ascii ''Status Code: '' @ str_int (resp_status_code response))],
          if resp_status_code response = 422 then validation_marker
          else [Text (cross_mark @ ascii '' Unexpected status code: '' @
            str_int (resp_status_code response))],
          [Text (ascii ''Response: '' @ resp_text response)]]\<rparr>)
     else
       (Inl UnicodeEncodeError, w\<lparr>net := n1, printed := printed w @
         [[Text (ascii ''Status Code: '' @ str_int (resp_status_code response))],
          if resp_status_code response = 422 then validation_marker
          else [Text (cross_mark @ ascii '' Unexpected status code: '' @
            str_int (resp_status_code response))]]\<rparr>))"
  using assms by (simp add: empty_string_try_def act_defs validation_marker_def)

lemma empty_string_case_unfold:
  "empty_string_case requests_post w =
     try_except (empty_string_try requests_post) (\<lambda>e. print_line (generic_report e))
       (w\<lparr>printed := printed w @
         [[Text (newline @ rule60)],
          [Text (ascii ''Test: Empty string (should return validation error)'')],
          [Text rule60]]\<rparr>)"
proof -
  have "empty_string_case requests_post w =
      bind_act (print_line [Text (newline @ rule60)]) (\<lambda>_.
      bind_act (print_line
        [Text (ascii ''Test: Empty string (should return validation error)'')]) (\<lambda>_.
      bind_act (print_line [Text rule60]) (\<lambda>_.
      try_except (empty_string_try requests_post) (\<lambda>e. print_line (generic_report e))))) w"
    unfolding empty_string_case_def generic_report_def
    by (simp add: bind_act_return)
  then show ?thesis
    by (simp add: bind_act_def print_line_def)
qed

lemma empty_string_case_response:
  assumes "requests_post (BASE_URL @ ascii ''/summaries'')
      (JObj [(ascii ''text'', JStr [])]) 5 (net w) = (Inr response, n1)"
  shows "empty_string_case requests_post w =
    (Inr (), w\<lparr>net := n1, printed := printed w @
      [[Text (newline @ rule60)],
       [Text (ascii ''Test: Empty string (should return validation error)'')],
       [Text rule60],
       [Text (ascii ''Status Code: '' @ str_int (resp_status_code response))],
       if resp_status_code response = 422 then validation_marker
       else [Text (cross_mark @ ascii '' Unexpected status code: '' @
         str_int (resp_status_code response))],
       if encodable (resp_text response)
       then [Text (ascii ''Response: '' @ resp_text response)]
       else generic_report UnicodeEncodeError]\<rparr>)"
proof -
  let ?w3 = "w\<lparr>printed := printed w @
      [[Text (newline @ rule60)],
       [Text (ascii ''Test: Empty string (should return validation error)'')],
       [Text rule60]]\<rparr>"
  have "requests_post (BASE_URL @ ascii ''/summaries'')
      (JObj [(ascii ''text'', JStr [])]) 5 (net ?w3) = (Inr response, n1)"
    using assms by simp
  from empty_string_try_response [where requests_post = requests_post and w = "?w3", OF this]
  show ?thesis
    by (simp add: empty_string_case_unfold try_except_def handler_generic)
qed

lemma empty_string_case_raised:
  assumes "requests_post (BASE_URL @ ascii ''/summaries'')
      (JObj [(ascii ''text'', JStr [])]) 5 (net w) = (Inl e, n1)"
  shows "empty_string_case requests_post w =
    (Inr (), w\<lparr>net := n1, printed := printed w @
      [[Text (newline @ rule60)],
       [Text (ascii ''Test: Empty string (should return validation error)'')],
       [Text rule60],
       generic_report e]\<rparr>)"
  using assms
  by (simp add: empty_string_case_unfold try_except_def empty_string_try_def bind_act_def
      post_def handler_generic)

lemmas line_defs =
  validation_marker_def connection_hint_def generic_report_def ascii_def newline_def
  rule60_Cons check_mark_def cross_mark_def

text \<open>
  C7. When the request of the empty-string case is answered, the case returns normally
  and prints the marker \<^verbatim>\<open>Correct: Validation error as expected\<close> if and only if the status
  code is 422, and the line \<^verbatim>\<open>Unexpected status code\<close> if and only if it is not. The decoded
  body plays no part: with any other outcome of \<^verbatim>\<open>response.json()\<close> the run is the same.
\<close>

theorem empty_string_case_verdict:
  assumes "requests_post (BASE_URL @ ascii ''/summaries'')
      (JObj [(ascii ''text'', JStr [])]) 5 (net w) = (Inr response, n1)"
  shows "fst (empty_string_case requests_post w) = Inr () \<and>
    (list_ex (\<lambda>l. l = validation_marker)
       (emitted w (snd (empty_string_case requests_post w))) \<longleftrightarrow>
     resp_status_code response = 422) \<and>
    (list_ex (\<lambda>l. l = [Text (cross_mark @ ascii '' Unexpected status code: '' @
         str_int (resp_status_code response))])
       (emitted w (snd (empty_string_case requests_post w))) \<longleftrightarrow>
     resp_status_code response \<noteq> 422) \<and>
    (\<forall>requests_post' decoded.
       requests_post' (BASE_URL @ ascii ''/summaries'')
         (JObj [(ascii ''text'', JStr [])]) 5 (net w) =
         (Inr (response\<lparr>resp_json := decoded\<rparr>), n1) \<longrightarrow>
       empty_string_case requests_post' w = empty_string_case requests_post w)"
proof (intro conjI allI impI)
  note run = empty_string_case_response [where requests_post = requests_post, OF assms]
  show "fst (empty_string_case requests_post w) = Inr ()"
    by (simp add: run)
  show "list_ex (\<lambda>l. l = validation_marker)
       (emitted w (snd (empty_string_case requests_post w))) \<longleftrightarrow>
     resp_status_code response = 422"
    by (simp add: run emitted_append line_defs)
  show "list_ex (\<lambda>l. l = [Text (cross_mark @ ascii '' Unexpected status code: '' @
         str_int (resp_status_code response))])
       (emitted w (snd (empty_string_case requests_post w))) \<longleftrightarrow>
     resp_status_code response \<noteq> 422"
    by (simp add: run emitted_append line_defs)
next
  fix requests_post' :: "'a requests_post" and decoded
  assume "requests_post' (BASE_URL @ ascii ''/summaries'')
         (JObj [(ascii ''text'', JStr [])]) 5 (net w) =
         (Inr (response\<lparr>resp_json := decoded\<rparr>), n1)"
  from empty_string_case_response [where requests_post = requests_post', OF this]
  show "empty_string_case requests_post' w = empty_string_case requests_post w"
    by (simp add: empty_string_case_response [where requests_post = requests_post, OF assms])
qed

theorem empty_string_case_verdict_witness:
  "fst (empty_string_case server_rejects probe0) = Inr () \<and>
   list_ex (\<lambda>l. l = validation_marker)
     (emitted probe0 (snd (empty_string_case server_rejects probe0)))"
proof -
  have h: "server_rejects (BASE_URL @ ascii ''/summaries'')
      (JObj [(ascii ''text'', JStr [])]) 5 (net probe0) =
      (Inr \<lparr>resp_status_code = 422, resp_text = ascii ''Unprocessable'',
        resp_json = Inl (ascii ''Expecting value'')\<rparr>, ())"
    by (simp add: server_rejects_def)
  show ?thesis
    using empty_string_case_verdict [where requests_post = server_rejects and w = probe0, OF h]
    by simp
qed

lemma caught_by_generic_handler:
  assumes run: "\<And>w'. net w' = net w \<Longrightarrow>
      test_summaries_try requests_post text w' =
        (Inl e, w'\<lparr>net := n1, printed := printed w' @ ls\<rparr>)"
    and e: "\<not> is_ConnectionError e"
    and ls: "\<not> list_ex (\<lambda>l. l = connection_hint) ls"
    and enc: "encodable text" "encodable description"
  shows "fst (test_summaries_try requests_post text w) = Inl e \<and>
    \<not> is_ConnectionError e \<and>
    fst (test_summaries requests_post text description w) = Inr () \<and>
    last (printed (snd (test_summaries requests_post text description w))) =
      generic_report e \<and>
    \<not> list_ex (\<lambda>l. l = connection_hint)
      (emitted w (snd (test_summaries requests_post text description w)))"
proof -
  let ?w5 = "w\<lparr>printed := printed w @ banner text description\<rparr>"
  have "test_summaries_try requests_post text ?w5 =
      (Inl e, ?w5\<lparr>net := n1, printed := printed ?w5 @ ls\<rparr>)"
    by (rule run) simp
  then have "test_summaries_try requests_post text ?w5 =
      (Inl e, w\<lparr>net := n1, printed := printed w @ banner text description @ ls\<rparr>)"
    by simp
  from test_summaries_caught [OF this e enc]
  have full: "test_summaries requests_post text description w =
      (Inr (), w\<lparr>net := n1,
         printed := printed w @ banner text description @ ls @ [generic_report e]\<rparr>)" .
  have "fst (test_summaries_try requests_post text w) = Inl e"
    by (simp add: run)
  with e ls no_hint_in_banner [of "text" description] show ?thesis
    by (simp add: full emitted_append not_hint_simps generic_report_def)
qed

text \<open>
  C10. When a response with status 200 has a body that is not JSON, or a JSON object that
  lacks one of the keys \<^verbatim>\<open>summary\<close>, \<^verbatim>\<open>word_count\<close> and \<^verbatim>\<open>timestamp\<close>, the \<^verbatim>\<open>try\<close> body raises
  an exception that is not a connection error; \<open>test_summaries\<close> returns normally, its last
  line is the generic report of that exception, and it prints no connection hint. The
  input and its description are strings that \<^verbatim>\<open>print\<close> can encode, as the literals of
  \<open>main\<close> are: they are printed before the \<^verbatim>\<open>try\<close> statement.
\<close>

theorem test_summaries_malformed_body:
  assumes post: "requests_post (BASE_URL @ ascii ''/summaries'')
      (JObj [(ascii ''text'', JStr text)]) 5 (net w) = (Inr response, n1)"
    and ok: "resp_status_code response = 200"
    and bad: "resp_json response = Inl msg \<or>
      (resp_json response = Inr (JObj items) \<and>
       (map_of items (ascii ''summary'') = None \<or>
        map_of items (ascii ''word_count'') = None \<or>
        map_of items (ascii ''timestamp'') = None))"
    and enc: "encodable text" "encodable description"
  shows "\<exists>e. fst (test_summaries_try requests_post text w) = Inl e \<and>
    \<not> is_ConnectionError e \<and>
    fst (test_summaries requests_post text description w) = Inr () \<and>
    last (printed (snd (test_summaries requests_post text description w))) =
      generic_report e \<and>
    \<not> list_ex (\<lambda>l. l = connection_hint)
      (emitted w (snd (test_summaries requests_post text description w)))"
proof -
  have post': "requests_post (BASE_URL @ ascii ''/summaries'')
      (JObj [(ascii ''text'', JStr text)]) 5 (net w') = (Inr response, n1)"
    if "net w' = net w" for w' :: "'a probe_world"
    using post that by simp
  consider
    (not_json) "resp_json response = Inl msg"
  | (no_summary) "resp_json response = Inr (JObj items)" "map_of items (ascii ''summary'') = None"
  | (not_str) v where "resp_json response = Inr (JObj items)"
      "map_of items (ascii ''summary'') = Some v" "\<forall>s. v \<noteq> JStr s"
  | (surrogate) s where "resp_json response = Inr (JObj items)"
      "map_of items (ascii ''summary'') = Some (JStr s)" "\<not> encodable s"
  | (no_word_count) s where "resp_json response = Inr (JObj items)"
      "map_of items (ascii ''summary'') = Some (JStr s)"
      "map_of items (ascii ''word_count'') = None" "encodable s"
  | (word_count_surrogate) s v1 where "resp_json response = Inr (JObj items)"
      "map_of items (ascii ''summary'') = Some (JStr s)"
      "map_of items (ascii ''word_count'') = Some v1" "encodable s"
      "\<not> frag_encodable (StrOfJson v1)"
  | (no_timestamp) s v1 where "resp_json response = Inr (JObj items)"
      "map_of items (ascii ''summary'') = Some (JStr s)"
      "map_of items (ascii ''word_count'') = Some v1"
      "map_of items (ascii ''timestamp'') = None" "encodable s"
      "frag_encodable (StrOfJson v1)"
  proof (cases "resp_json response = Inl msg")
    case True
    then show ?thesis
      by (rule not_json)
  next
    case False
    with bad have obj: "resp_json response = Inr (JObj items)"
      and missing: "map_of items (ascii ''summary'') = None \<or>
        map_of items (ascii ''word_count'') = None \<or>
        map_of items (ascii ''timestamp'') = None"
      by simp_all
    show ?thesis
    proof (cases "map_of items (ascii ''summary'')")
      case None
      with obj show ?thesis
        by (rule no_summary)
    next
      case (Some v)
      show ?thesis
      proof (cases "\<exists>s. v = JStr s")
        case False
        with obj Some show ?thesis
          by (intro not_str [of v]) simp_all
      next
        case True
        then obtain s where v: "v = JStr s"
          by blast
        show ?thesis
        proof (cases "encodable s")
          case False
          with obj Some v show ?thesis
            by (intro surrogate [of s]) simp_all
        next
          case s: True
          show ?thesis
          proof (cases "map_of items (ascii ''word_count'')")
            case None
            with obj Some v s show ?thesis
              by (intro no_word_count [of s]) simp_all
          next
            case wc: (Some v1)
            show ?thesis
            proof (cases "frag_encodable (StrOfJson v1)")
              case False
              with obj Some v s wc show ?thesis
                by (intro word_count_surrogate [of s v1]) simp_all
            next
              case True
              from missing Some wc have "map_of items (ascii ''timestamp'') = None"
                by simp
              with obj Some v s wc True show ?thesis
                by (intro no_timestamp [of s v1]) simp_all
            qed
          qed
        qed
      qed
    qed
  qed
  then show ?thesis
  proof cases
    case not_json
    show ?thesis
      by (rule exI, rule caught_by_generic_handler
          [where requests_post = requests_post, OF try_bad_json
            [where requests_post = requests_post, OF post' ok not_json]])
        (simp_all add: not_hint_simps enc)
  next
    case no_summary
    show ?thesis
      by (rule exI, rule caught_by_generic_handler
          [where requests_post = requests_post, OF try_no_summary
            [where requests_post = requests_post, OF post' ok no_summary]])
        (simp_all add: not_hint_simps enc)
  next
    case not_str
    show ?thesis
      by (rule exI, rule caught_by_generic_handler
          [where requests_post = requests_post, OF try_summary_not_str
            [where requests_post = requests_post, OF post' ok not_str]])
        (simp_all add: not_hint_simps enc)
  next
    case surrogate
    show ?thesis
      by (rule exI, rule caught_by_generic_handler
          [where requests_post = requests_post, OF try_summary_surrogate
            [where requests_post = requests_post, OF post' ok surrogate]])
        (simp_all add: not_hint_simps enc)
  next
    case no_word_count
    show ?thesis
      by (rule exI, rule caught_by_generic_handler
          [where requests_post = requests_post, OF try_no_word_count
            [where requests_post = requests_post, OF post' ok no_word_count]])
        (simp_all add: not_hint_simps enc)
  next
    case word_count_surrogate
    show ?thesis
      by (rule exI, rule caught_by_generic_handler
          [where requests_post = requests_post, OF try_word_count_surrogate
            [where requests_post = requests_post, OF post' ok word_count_surrogate]])
        (simp_all add: not_hint_simps enc)
  next
    case no_timestamp
    show ?thesis
      by (rule exI, rule caught_by_generic_handler
          [where requests_post = requests_post, OF try_no_timestamp
            [where requests_post = requests_post, OF post' ok no_timestamp]])
        (simp_all add: not_hint_simps enc)
  qed
qed

theorem test_summaries_malformed_body_witness:
  "fst (test_summaries server_not_json (ascii ''Hello'') (ascii ''Single word'') probe0) =
     Inr () \<and>
   last (printed (snd (test_summaries server_not_json (ascii ''Hello'') (ascii ''Single word'')
     probe0))) = generic_report (JSONDecodeError (ascii ''Expecting value''))"
proof -
  have h: "server_not_json (BASE_URL @ ascii ''/summaries'')
      (JObj [(ascii ''text'', JStr (ascii ''Hello''))]) 5 (net probe0) =
      (Inr \<lparr>resp_status_code = 200, resp_text = ascii ''<html>'',
        resp_json = Inl (ascii ''Expecting value'')\<rparr>, ())"
    by (simp add: server_not_json_def)
  have t: "fst (test_summaries_try server_not_json (ascii ''Hello'') probe0) =
      Inl (JSONDecodeError (ascii ''Expecting value''))"
    by (simp add: try_bad_json [where requests_post = server_not_json, OF h])
  have "\<exists>e. fst (test_summaries_try server_not_json (ascii ''Hello'') probe0) = Inl e \<and>
    \<not> is_ConnectionError e \<and>
    fst (test_summaries server_not_json (ascii ''Hello'') (ascii ''Single word'') probe0) =
      Inr () \<and>
    last (printed (snd (test_summaries server_not_json (ascii ''Hello'') (ascii ''Single word'')
      probe0))) = generic_report e \<and>
    \<not> list_ex (\<lambda>l. l = connection_hint)
      (emitted probe0 (snd (test_summaries server_not_json (ascii ''Hello'')
        (ascii ''Single word'') probe0)))"
    by (rule test_summaries_malformed_body
        [where requests_post = server_not_json and msg = "ascii ''Expecting value''"
          and items = "[]", OF h]) simp_all
  with t show ?thesis
    by auto
qed

section \<open>Endpoint Probe Script: the whole run\<close>

lemma try_except_returns:
  assumes "\<And>e w1. fst (handler e w1) = Inr ()"
  shows "fst (try_except try_body handler w) = Inr ()"
proof (cases "try_body w")
  case (Pair r w1)
  then show ?thesis
    using assms by (cases r) (simp_all add: try_except_def)
qed

lemma test_summaries_returns:
  assumes "encodable text" and "encodable description"
  shows "fst (test_summaries requests_post text description w) = Inr ()"
  unfolding test_summaries_unfold [OF assms]
  by (rule try_except_returns) (simp add: bind_act_def print_line_def return_act_def)

lemma empty_string_case_returns: "fst (empty_string_case requests_post w) = Inr ()"
  unfolding empty_string_case_unfold
  by (rule try_except_returns) (simp add: handler_generic)

lemma bind_act_step:
  assumes "fst (a w) = Inr ()"
  shows "bind_act a f w = f () (snd (a w))"
  using assms by (cases "a w") (simp add: bind_act_def)

lemma seq_acts_step:
  assumes "fst (a w) = Inr ()"
  shows "seq_acts (a # as) w = seq_acts as (snd (a w))"
  using assms by (cases "a w") (simp add: bind_act_def)

lemma seq_acts_returns:
  assumes "\<And>a w. a \<in> set as \<Longrightarrow> fst (a w) = Inr ()"
  shows "fst (seq_acts as w) = Inr ()"
  using assms
proof (induction as arbitrary: w)
  case Nil
  show ?case
    by (simp add: return_act_def)
next
  case (Cons a as)
  have "fst (a w) = Inr ()"
    by (rule Cons.prems) simp
  then have "seq_acts (a # as) w = seq_acts as (snd (a w))"
    by (rule seq_acts_step)
  moreover have "fst (seq_acts as (snd (a w))) = Inr ()"
    by (rule Cons.IH) (simp add: Cons.prems)
  ultimately show ?case
    by simp
qed

lemma test_inputs_encodable:
  assumes "(text, description) \<in> set test_inputs"
  shows "encodable text" and "encodable description"
  using assms by (auto simp: test_inputs_def)

lemma main_returns: "fst (main requests_post w) = Inr ()"
  unfolding main_def
  by (rule seq_acts_returns)
    (auto simp: print_line_def test_summaries_returns test_inputs_encodable
      empty_string_case_returns)

lemma run_script_exit_code: "fst (run_script requests_post w) = 0"
proof (cases "main requests_post w")
  case (Pair r w1)
  with main_returns [of requests_post w] show ?thesis
    by (simp add: run_script_def)
qed

lemma test_summaries_try_net:
  "net (snd (test_summaries_try requests_post text w)) =
     snd (requests_post (BASE_URL @ ascii ''/summaries'')
       (JObj [(ascii ''text'', JStr text)]) 5 (net w))"
proof (cases "requests_post (BASE_URL @ ascii ''/summaries'')
    (JObj [(ascii ''text'', JStr text)]) 5 (net w)")
  case (Pair r n1)
  show ?thesis
  proof (cases r)
    case (Inl e)
    with Pair show ?thesis
      by (simp add: test_summaries_try_def bind_act_def post_def)
  next
    case (Inr response)
    with Pair show ?thesis
      by (simp add: test_summaries_try_def act_defs verify_word_count_prints Let_def
          split: sum.splits)
  qed
qed

lemma test_summaries_net:
  assumes "encodable text" and "encodable description"
  shows "net (snd (test_summaries requests_post text description w)) =
     snd (requests_post (BASE_URL @ ascii ''/summaries'')
       (JObj [(ascii ''text'', JStr text)]) 5 (net w))"
proof -
  let ?w5 = "w\<lparr>printed := printed w @ banner text description\<rparr>"
  have "net (snd (test_summaries_try requests_post text ?w5)) =
      snd (requests_post (BASE_URL @ ascii ''/summaries'')
        (JObj [(ascii ''text'', JStr text)]) 5 (net w))"
    by (simp add: test_summaries_try_net)
  then show ?thesis
    by (cases "test_summaries_try requests_post text ?w5")
      (auto simp: test_summaries_unfold [OF assms] try_except_def bind_act_def print_line_def
        return_act_def split: sum.splits)
qed

lemma empty_string_case_net:
  "net (snd (empty_string_case requests_post w)) =
     snd (requests_post (BASE_URL @ ascii ''/summaries'')
       (JObj [(ascii ''text'', JStr [])]) 5 (net w))"
proof (cases "requests_post (BASE_URL @ ascii ''/summaries'')
    (JObj [(ascii ''text'', JStr [])]) 5 (net w)")
  case (Pair r n1)
  then show ?thesis
    by (cases r)
      (simp_all add: empty_string_case_raised [where requests_post = requests_post]
        empty_string_case_response [where requests_post = requests_post])
qed

lemma logged_appends:
  "snd (snd (logged requests_post url payload timeout s)) = snd s @ [(url, payload, timeout)]"
  by (cases "requests_post url payload timeout (fst s)") (simp add: logged_def)

lemma snd_print_line: "net (snd (print_line l w)) = net w"
  by (simp add: print_line_def)

lemma fst_print_line: "list_all frag_encodable l \<Longrightarrow> fst (print_line l w) = Inr ()"
  by (simp add: print_line_def)

lemma main_requests:
  "snd (net (snd (main (logged requests_post) w))) =
     snd (net w) @
     map (\<lambda>(text, description).
       (BASE_URL @ ascii ''/summaries'', JObj [(ascii ''text'', JStr text)], 5)) test_inputs @
     [(BASE_URL @ ascii ''/summaries'', JObj [(ascii ''text'', JStr [])], 5)]"
  unfolding main_def test_inputs_def
  by (simp add: bind_act_step fst_print_line test_summaries_returns empty_string_case_returns
      return_act_def snd_print_line test_summaries_net empty_string_case_net logged_appends)

lemma test_summaries_server_down:
  assumes "encodable text" and "encodable description"
  shows "test_summaries server_down text description w =
     (Inr (), w\<lparr>printed := printed w @ banner text description @
        [[Text (cross_mark @ ascii '' Error: Could not connect to server.'')],
         connection_hint]\<rparr>)"
  by (simp add: test_summaries_unfold [OF assms] try_except_def test_summaries_try_def
      bind_act_def post_def server_down_def print_line_def return_act_def)

lemma empty_string_case_server_down:
  "empty_string_case server_down w =
     (Inr (), w\<lparr>printed := printed w @
        [[Text (newline @ rule60)],
         [Text (ascii ''Test: Empty string (should return validation error)'')],
         [Text rule60],
         generic_report (ConnectionError (ascii ''refused''))]\<rparr>)"
proof -
  have "server_down (BASE_URL @ ascii ''/summaries'')
      (JObj [(ascii ''text'', JStr [])]) 5 (net w) =
      (Inl (ConnectionError (ascii ''refused'')), net w)"
    by (simp add: server_down_def)
  from empty_string_case_raised [where requests_post = server_down, OF this]
  show ?thesis
    by simp
qed

lemma not_hint_literals:
  "[Text (ascii ''Test: Empty string (should return validation error)'')] \<noteq> connection_hint"
  "[Text (ascii ''Testing POST /summaries Endpoint'')] \<noteq> connection_hint"
  "[Text (ascii ''Testing Complete!'')] \<noteq> connection_hint"
  "[Text (rule60 @ s)] \<noteq> connection_hint"
  by (simp_all add: line_defs)

lemma filter_hint_banner:
  "filter (\<lambda>l. l = connection_hint) (banner text description) = []"
  by (simp add: banner_def not_hint_simps)

lemma main_server_down:
  "printed (snd (main server_down probe0)) =
     [[Text (newline @ rule60)],
      [Text (ascii ''Testing POST /summaries Endpoint'')],
      [Text rule60]] @
     concat (map (\<lambda>(text, description). banner text description @
        [[Text (cross_mark @ ascii '' Error: Could not connect to server.'')],
         connection_hint]) test_inputs) @
     [[Text (newline @ rule60)],
      [Text (ascii ''Test: Empty string (should return validation error)'')],
      [Text rule60],
      generic_report (ConnectionError (ascii ''refused'')),
      [Text (newline @ rule60)],
      [Text (ascii ''Testing Complete!'')],
      [Text (rule60 @ newline)]]"
  unfolding main_def test_inputs_def
  by (simp add: bind_act_def print_line_def return_act_def test_summaries_server_down
      empty_string_case_server_down probe0_def)

text \<open>
  C8. Whatever the HTTP calls do, \<open>main\<close> returns and the process exits with status 0
  (\<open>run_script_exit_code\<close>), after the seven requests in their order (\<open>main_requests\<close>).
  With the server down, each of the six calls of \<open>test_summaries\<close> prints the connection
  hint, and the seventh case reports the same connection failure with the generic line and
  no hint: six hints for seven failed connections.
\<close>

theorem main_server_down_seventh_case:
  "fst (run_script server_down probe0) = 0 \<and>
   emitted probe0 (snd (test_summaries server_down (ascii ''Hello'') (ascii ''Single word'')
     probe0)) =
     banner (ascii ''Hello'') (ascii ''Single word'') @
     [[Text (cross_mark @ ascii '' Error: Could not connect to server.'')], connection_hint] \<and>
   emitted probe0 (snd (empty_string_case server_down probe0)) =
     [[Text (newline @ rule60)],
      [Text (ascii ''Test: Empty string (should return validation error)'')],
      [Text rule60],
      generic_report (ConnectionError (ascii ''refused''))] \<and>
   \<not> list_ex (\<lambda>l. l = connection_hint)
     (emitted probe0 (snd (empty_string_case server_down probe0))) \<and>
   length (filter (\<lambda>l. l = connection_hint) (printed (snd (main server_down probe0)))) = 6"
proof (intro conjI)
  show "fst (run_script server_down probe0) = 0"
    by (rule run_script_exit_code)
  show "emitted probe0 (snd (test_summaries server_down (ascii ''Hello'') (ascii ''Single word'')
     probe0)) =
     banner (ascii ''Hello'') (ascii ''Single word'') @
     [[Text (cross_mark @ ascii '' Error: Could not connect to server.'')], connection_hint]"
    by (simp add: test_summaries_server_down emitted_def)
  show "emitted probe0 (snd (empty_string_case server_down probe0)) =
     [[Text (newline @ rule60)],
      [Text (ascii ''Test: Empty string (should return validation error)'')],
      [Text rule60],
      generic_report (ConnectionError (ascii ''refused''))]"
    by (simp add: empty_string_case_server_down emitted_def)
  show "\<not> list_ex (\<lambda>l. l = connection_hint)
     (emitted probe0 (snd (empty_string_case server_down probe0)))"
    by (simp add: empty_string_case_server_down emitted_def not_hint_simps not_hint_literals
        generic_report_def)
  show "length (filter (\<lambda>l. l = connection_hint) (printed (snd (main server_down probe0)))) = 6"
    by (simp add: main_server_down test_inputs_def filter_hint_banner not_hint_simps
        not_hint_literals generic_report_def)
qed

end
